theory Spec2Isabelle
  imports Main "HOL-Library.AList"
begin

section \<open>The base model of matchzoo: parameters, delegation and persistence\<close>

text \<open>
  A shallow embedding of \<^verbatim>\<open>matchzoo/engine/base_model.py\<close>: the class
  \<^verbatim>\<open>BaseModel\<close> and the module function \<^verbatim>\<open>load_model\<close>. Mutation of the
  model and of the file system is explicit state passing, every exception is a value of
  \<open>error\<close>, and what the module calls outside itself (the task registry and the parameter
  constructor of the engine, pickle, keras) is a parameter of the functions that call it.
\<close>

subsection \<open>Values, classes and parameters\<close>

datatype error =
    FileExistsError
  | FileNotFoundError
  | NotADirectoryError
  | IsADirectoryError
  | AttributeError
  | KeyError string
  | TypeError
  | IndexError
  | PicklingError
  | UnpicklingError
  | BackendError string

text \<open>
  Modelled from the spec: the task classes of the engine (\<^verbatim>\<open>engine.list_available_tasks\<close>
  and the methods \<^verbatim>\<open>list_available_losses\<close>, \<^verbatim>\<open>list_available_metrics\<close> of a task) are
  not among the sources. A task is its name with the losses and the metrics it lists.
\<close>

datatype task =
  Task (task_name: string) (list_available_losses: "string list")
    (list_available_metrics: "string list")

text \<open>
  The Python values a parameter can hold. A model class is its \<^verbatim>\<open>__name__\<close> and, when
  the subclass overrides the class method \<^verbatim>\<open>get_default_params\<close>, the parameters the
  override returns (\<open>None\<close>: the method of \<^verbatim>\<open>BaseModel\<close> is inherited). Model classes
  inherit the constructor of \<^verbatim>\<open>BaseModel\<close>.

  Modelled from the spec: the class \<^verbatim>\<open>engine.ModelParams\<close> is not among the sources. It
  is the key-value configuration of the glossary, here a Python mapping in insertion
  order: a subscript with an absent key raises \<^verbatim>\<open>KeyError\<close>, an assignment replaces the
  value in place, and the object is falsy exactly when it has no entry.
\<close>

datatype pyval =
    PNone
  | PStr string
  | PInt int
  | PTuple "pyval list"
  | PList "pyval list"
  | PTask task
  | PClass model_class
and model_class =
  ModelClass (cls_name: string) (cls_default_params: "(string \<times> pyval) list option")

type_synonym params = "(string \<times> pyval) list"

definition getitem :: "params \<Rightarrow> string \<Rightarrow> error + pyval" where
  "getitem ps k = (case map_of ps k of None \<Rightarrow> Inl (KeyError k) | Some v \<Rightarrow> Inr v)"

definition setitem :: "params \<Rightarrow> string \<Rightarrow> pyval \<Rightarrow> params" where
  "setitem ps k v = AList.update k v ps"

definition truthy :: "params option \<Rightarrow> bool" where
  "truthy arg = (case arg of None \<Rightarrow> False | Some ps \<Rightarrow> ps \<noteq> [])"

subsection \<open>The model object and its constructor\<close>

record 'b model =
  model_cls :: model_class
  params :: params
  backend :: "'b option"

definition BACKEND_FILENAME :: string where
  "BACKEND_FILENAME = ''backend.h5''"

definition PARAMS_FILENAME :: string where
  "PARAMS_FILENAME = ''params.pkl''"

text \<open>
  \<^verbatim>\<open>BaseModel.get_default_params\<close>, and the method a class dispatches to. What the
  constructor call \<^verbatim>\<open>engine.ModelParams()\<close> builds is settled by no source: the
  object it gives is the parameter \<open>ModelParams\<close> of every function that reaches the
  call.
\<close>

definition get_default_params :: "params \<Rightarrow> params" where
  "get_default_params ModelParams = ModelParams"

definition cls_get_default_params :: "params \<Rightarrow> model_class \<Rightarrow> params" where
  "cls_get_default_params ModelParams cls =
     (case cls_default_params cls of
        None \<Rightarrow> get_default_params ModelParams
      | Some ps \<Rightarrow> ps)"

text \<open>
  \<^verbatim>\<open>__init__\<close>: \<^verbatim>\<open>self._params = params or self.get_default_params()\<close>. The
  argument \<open>None\<close> is Python's \<^verbatim>\<open>None\<close>.
\<close>

definition init ::
  "params \<Rightarrow> model_class \<Rightarrow> params option \<Rightarrow> 'b option \<Rightarrow> 'b model" where
  "init ModelParams cls arg be =
     \<lparr>model_cls = cls,
      params = (if truthy arg then the arg else cls_get_default_params ModelParams cls),
      backend = be\<rparr>"

subsection \<open>Guessing the missing parameters\<close>

text \<open>
  One statement \<^verbatim>\<open>if self._params[k] is None: self._params[k] = e\<close>. The default
  \<open>e\<close> is evaluated only when the entry is \<^verbatim>\<open>None\<close>; an exception leaves the model
  as it was before the statement.
\<close>

definition fill_missing ::
  "string \<Rightarrow> ('b model \<Rightarrow> error + pyval) \<Rightarrow> 'b model \<Rightarrow> error option \<times> 'b model" where
  "fill_missing k dflt m =
     (case getitem (params m) k of
        Inl e \<Rightarrow> (Some e, m)
      | Inr v \<Rightarrow>
          if v = PNone then
            (case dflt m of
               Inl e \<Rightarrow> (Some e, m)
             | Inr d \<Rightarrow> (None, m\<lparr>params := setitem (params m) k d\<rparr>))
          else (None, m))"

text \<open>The statements in sequence: the first exception ends the call.\<close>

fun fill_all ::
  "(string \<times> ('b model \<Rightarrow> error + pyval)) list \<Rightarrow> 'b model \<Rightarrow> error option \<times> 'b model" where
  "fill_all [] m = (None, m)"
| "fill_all ((k, dflt) # rest) m =
     (case fill_missing k dflt m of
        (Some e, m') \<Rightarrow> (Some e, m')
      | (None, m') \<Rightarrow> fill_all rest m')"

fun as_task :: "pyval \<Rightarrow> error + task" where
  "as_task (PTask t) = Inr t"
| "as_task _ = Inl AttributeError"

definition guess_name :: "'b model \<Rightarrow> error + pyval" where
  "guess_name m = Inr (PStr (cls_name (model_cls m)))"

definition guess_model_class :: "'b model \<Rightarrow> error + pyval" where
  "guess_model_class m = Inr (PClass (model_cls m))"

text \<open>\<^verbatim>\<open>engine.list_available_tasks()[1]()\<close>: index 0 is the abstract task class.\<close>

definition guess_task :: "task list \<Rightarrow> 'b model \<Rightarrow> error + pyval" where
  "guess_task tasks m =
     (case tasks of
        _ # t # _ \<Rightarrow> Inr (PTask t)
      | _ \<Rightarrow> Inl IndexError)"

definition guess_input_shapes :: "'b model \<Rightarrow> error + pyval" where
  "guess_input_shapes m = Inr (PList [PTuple [PInt 30], PTuple [PInt 30]])"

definition guess_metrics :: "'b model \<Rightarrow> error + pyval" where
  "guess_metrics m =
     (case getitem (params m) ''task'' of
        Inl e \<Rightarrow> Inl e
      | Inr v \<Rightarrow>
          (case as_task v of
             Inl e \<Rightarrow> Inl e
           | Inr t \<Rightarrow> Inr (PList (map PStr (list_available_metrics t)))))"

definition guess_loss :: "'b model \<Rightarrow> error + pyval" where
  "guess_loss m =
     (case getitem (params m) ''task'' of
        Inl e \<Rightarrow> Inl e
      | Inr v \<Rightarrow>
          (case as_task v of
             Inl e \<Rightarrow> Inl e
           | Inr t \<Rightarrow>
               (case list_available_losses t of
                  [] \<Rightarrow> Inl IndexError
                | l # _ \<Rightarrow> Inr (PStr l))))"

definition guess_optimizer :: "'b model \<Rightarrow> error + pyval" where
  "guess_optimizer m = Inr (PStr ''adam'')"

definition guess_and_fill_missing_params ::
  "task list \<Rightarrow> 'b model \<Rightarrow> error option \<times> 'b model" where
  "guess_and_fill_missing_params tasks m =
     fill_all
       [(''name'', guess_name),
        (''model_class'', guess_model_class),
        (''task'', guess_task tasks),
        (''input_shapes'', guess_input_shapes),
        (''metrics'', guess_metrics),
        (''loss'', guess_loss),
        (''optimizer'', guess_optimizer)] m"

definition all_params_filled :: "'b model \<Rightarrow> bool" where
  "all_params_filled m = list_all (\<lambda>(k, v). v \<noteq> PNone) (params m)"

definition is_filled :: "params \<Rightarrow> string \<Rightarrow> bool" where
  "is_filled ps k = (case map_of ps k of None \<Rightarrow> False | Some v \<Rightarrow> v \<noteq> PNone)"

subsection \<open>The backend, and the four forwarding methods\<close>

text \<open>
  keras is outside the repository: a backend is a value of type \<open>'b\<close>, arrays, scores
  and histories are values of type \<open>'a\<close>, and the methods of the backend are the
  fields below. A method returns what the call returns or raises, with the backend as
  the call leaves it. \<open>keras_save\<close> gives the bytes of the checkpoint the backend writes.
\<close>

type_synonym bytes = string

record ('b, 'a) keras =
  keras_load_model :: "bytes \<Rightarrow> error + 'b"
  keras_save :: "'b \<Rightarrow> error + bytes"
  keras_compile :: "'b \<Rightarrow> pyval \<Rightarrow> pyval \<Rightarrow> pyval \<Rightarrow> error option \<times> 'b"
  keras_fit :: "'b \<Rightarrow> 'a \<Rightarrow> 'a \<Rightarrow> int \<Rightarrow> int \<Rightarrow> (error + 'a) \<times> 'b"
  keras_evaluate :: "'b \<Rightarrow> 'a \<Rightarrow> 'a \<Rightarrow> int \<Rightarrow> (error + 'a) \<times> 'b"
  keras_predict :: "'b \<Rightarrow> 'a \<Rightarrow> int \<Rightarrow> (error + 'a) \<times> 'b"

text \<open>A keyword argument with a default: \<open>None\<close> is the argument left out.\<close>

definition or_default :: "int \<Rightarrow> int option \<Rightarrow> int" where
  "or_default d arg = (case arg of None \<Rightarrow> d | Some v \<Rightarrow> v)"

definition compile :: "('b, 'a) keras \<Rightarrow> 'b model \<Rightarrow> error option \<times> 'b model" where
  "compile K m =
     (case backend m of
        None \<Rightarrow> (Some AttributeError, m)
      | Some b \<Rightarrow>
          (case getitem (params m) ''optimizer'' of
             Inl e \<Rightarrow> (Some e, m)
           | Inr optimizer \<Rightarrow>
               (case getitem (params m) ''loss'' of
                  Inl e \<Rightarrow> (Some e, m)
                | Inr loss \<Rightarrow>
                    (case getitem (params m) ''metrics'' of
                       Inl e \<Rightarrow> (Some e, m)
                     | Inr metrics \<Rightarrow>
                         (case keras_compile K b optimizer loss metrics of
                            (r, b') \<Rightarrow> (r, m\<lparr>backend := Some b'\<rparr>))))))"

definition fit ::
  "('b, 'a) keras \<Rightarrow> 'b model \<Rightarrow> 'a \<Rightarrow> 'a \<Rightarrow> int option \<Rightarrow> int option \<Rightarrow>
     (error + 'a) \<times> 'b model" where
  "fit K m x y batch_size epochs =
     (case backend m of
        None \<Rightarrow> (Inl AttributeError, m)
      | Some b \<Rightarrow>
          (case keras_fit K b x y (or_default 128 batch_size) (or_default 1 epochs) of
             (r, b') \<Rightarrow> (r, m\<lparr>backend := Some b'\<rparr>)))"

definition evaluate ::
  "('b, 'a) keras \<Rightarrow> 'b model \<Rightarrow> 'a \<Rightarrow> 'a \<Rightarrow> int option \<Rightarrow> (error + 'a) \<times> 'b model" where
  "evaluate K m x y batch_size =
     (case backend m of
        None \<Rightarrow> (Inl AttributeError, m)
      | Some b \<Rightarrow>
          (case keras_evaluate K b x y (or_default 128 batch_size) of
             (r, b') \<Rightarrow> (r, m\<lparr>backend := Some b'\<rparr>)))"

definition predict ::
  "('b, 'a) keras \<Rightarrow> 'b model \<Rightarrow> 'a \<Rightarrow> int option \<Rightarrow> (error + 'a) \<times> 'b model" where
  "predict K m x batch_size =
     (case backend m of
        None \<Rightarrow> (Inl AttributeError, m)
      | Some b \<Rightarrow>
          (case keras_predict K b x (or_default 128 batch_size) of
             (r, b') \<Rightarrow> (r, m\<lparr>backend := Some b'\<rparr>)))"

subsection \<open>The file system and pickle\<close>

text \<open>
  A path is its list of components; the empty path is the root, a directory that always
  exists. The file system lists what exists at each path.
\<close>

type_synonym path = "string list"

datatype node = Dir | File bytes

type_synonym fs = "(path \<times> node) list"

definition lookup :: "fs \<Rightarrow> path \<Rightarrow> node option" where
  "lookup fs p = (if p = [] then Some Dir else map_of fs p)"

definition path_exists :: "fs \<Rightarrow> path \<Rightarrow> bool" where
  "path_exists fs p = (lookup fs p \<noteq> None)"

definition joinpath :: "path \<Rightarrow> string \<Rightarrow> path" where
  "joinpath p name = p @ [name]"

definition parent :: "path \<Rightarrow> path" where
  "parent p = butlast p"

definition listdir :: "fs \<Rightarrow> path \<Rightarrow> string list" where
  "listdir fs d = map (last \<circ> fst) (filter (\<lambda>(p, n). p \<noteq> [] \<and> parent p = d) fs)"

text \<open>\<^verbatim>\<open>Path.mkdir()\<close>, with its defaults: the parent must be a directory.\<close>

definition mkdir :: "fs \<Rightarrow> path \<Rightarrow> error + fs" where
  "mkdir fs p =
     (if path_exists fs p then Inl FileExistsError
      else
        (case lookup fs (parent p) of
           None \<Rightarrow> Inl FileNotFoundError
         | Some (File _) \<Rightarrow> Inl NotADirectoryError
         | Some Dir \<Rightarrow> Inr (AList.update p Dir fs)))"

text \<open>Opening a file for writing creates it, or empties the one that is there.\<close>

definition open_wb :: "fs \<Rightarrow> path \<Rightarrow> error + fs" where
  "open_wb fs p =
     (case lookup fs p of
        Some Dir \<Rightarrow> Inl IsADirectoryError
      | _ \<Rightarrow>
          (case lookup fs (parent p) of
             None \<Rightarrow> Inl FileNotFoundError
           | Some (File _) \<Rightarrow> Inl NotADirectoryError
           | Some Dir \<Rightarrow> Inr (AList.update p (File []) fs)))"

definition write_bytes :: "fs \<Rightarrow> path \<Rightarrow> bytes \<Rightarrow> fs" where
  "write_bytes fs p bs = AList.update p (File bs) fs"

definition read_file :: "fs \<Rightarrow> path \<Rightarrow> error + bytes" where
  "read_file fs p =
     (case lookup fs p of
        None \<Rightarrow> Inl FileNotFoundError
      | Some Dir \<Rightarrow> Inl IsADirectoryError
      | Some (File bs) \<Rightarrow> Inr bs)"

text \<open>Every entry lies in a directory that exists.\<close>

definition wf_fs :: "fs \<Rightarrow> bool" where
  "wf_fs fs = list_all (\<lambda>(p, n). p \<noteq> [] \<and> lookup fs (parent p) = Some Dir) fs"

text \<open>
  pickle is outside the repository: \<open>pickle_dump\<close> gives the bytes written for a
  parameter object, or the exception raised; \<open>pickle_load\<close> reads them back.
\<close>

record pickle =
  pickle_dump :: "params \<Rightarrow> error + bytes"
  pickle_load :: "bytes \<Rightarrow> error + params"

definition picklable :: "pickle \<Rightarrow> params \<Rightarrow> bool" where
  "picklable P ps =
     (case pickle_dump P ps of Inl e \<Rightarrow> False | Inr bs \<Rightarrow> pickle_load P bs = Inr ps)"

subsection \<open>Saving and loading\<close>

text \<open>
  \<^verbatim>\<open>save\<close> returns the exception raised, if any, with the model and the file system
  as the call leaves them. In \<^verbatim>\<open>pickle.dump(self._params, open(path, mode='wb'))\<close>
  the file is opened, and so created, before anything is pickled.
\<close>

definition save ::
  "('b, 'a) keras \<Rightarrow> pickle \<Rightarrow> path \<Rightarrow> 'b model \<times> fs \<Rightarrow> error option \<times> 'b model \<times> fs" where
  "save K P dirpath st =
     (case st of (m, fs) \<Rightarrow>
        if path_exists fs dirpath then (Some FileExistsError, m, fs)
        else
          (case mkdir fs dirpath of
             Inl e \<Rightarrow> (Some e, m, fs)
           | Inr fs1 \<Rightarrow>
               let backend_file_path = joinpath dirpath BACKEND_FILENAME in
               (case backend m of
                  None \<Rightarrow> (Some AttributeError, m, fs1)
                | Some b \<Rightarrow>
                    (case keras_save K b of
                       Inl e \<Rightarrow> (Some e, m, fs1)
                     | Inr h5 \<Rightarrow>
                         (case open_wb fs1 backend_file_path of
                            Inl e \<Rightarrow> (Some e, m, fs1)
                          | Inr fs2 \<Rightarrow>
                              let fs3 = write_bytes fs2 backend_file_path h5;
                                  params_file_path = joinpath dirpath PARAMS_FILENAME in
                              (case open_wb fs3 params_file_path of
                                 Inl e \<Rightarrow> (Some e, m, fs3)
                               | Inr fs4 \<Rightarrow>
                                   (case pickle_dump P (params m) of
                                      Inl e \<Rightarrow> (Some e, m, fs4)
                                    | Inr pkl \<Rightarrow>
                                        (None, m, write_bytes fs4 params_file_path pkl))))))))"

text \<open>
  \<^verbatim>\<open>load_model\<close>. Calling a value that is not a class raises \<^verbatim>\<open>TypeError\<close>.
\<close>

definition load_model ::
  "('b, 'a) keras \<Rightarrow> pickle \<Rightarrow> params \<Rightarrow> path \<Rightarrow> fs \<Rightarrow> error + 'b model" where
  "load_model K P ModelParams dirpath fs =
     (case read_file fs (joinpath dirpath BACKEND_FILENAME) of
        Inl e \<Rightarrow> Inl e
      | Inr h5 \<Rightarrow>
          (case keras_load_model K h5 of
             Inl e \<Rightarrow> Inl e
           | Inr b \<Rightarrow>
               (case read_file fs (joinpath dirpath PARAMS_FILENAME) of
                  Inl e \<Rightarrow> Inl e
                | Inr pkl \<Rightarrow>
                    (case pickle_load P pkl of
                       Inl e \<Rightarrow> Inl e
                     | Inr ps \<Rightarrow>
                         (case getitem ps ''model_class'' of
                            Inl e \<Rightarrow> Inl e
                          | Inr (PClass cls) \<Rightarrow> Inr (init ModelParams cls (Some ps) (Some b))
                          | Inr _ \<Rightarrow> Inl TypeError)))))"

text \<open>
  The file system a \<^verbatim>\<open>save\<close> that returns leaves: the directory, then each of
  the two files opened and written.
\<close>

definition saved_fs :: "path \<Rightarrow> bytes \<Rightarrow> bytes \<Rightarrow> fs \<Rightarrow> fs" where
  "saved_fs d h5 pkl fs =
     write_bytes
       (AList.update (joinpath d PARAMS_FILENAME) (File [])
          (write_bytes
             (AList.update (joinpath d BACKEND_FILENAME) (File []) (AList.update d Dir fs))
             (joinpath d BACKEND_FILENAME) h5))
       (joinpath d PARAMS_FILENAME) pkl"

subsection \<open>A small instance\<close>

text \<open>
  A registry of three tasks, an engine whose fresh parameter object holds the seven
  entries of \<^verbatim>\<open>guess_and_fill_missing_params\<close> with \<open>None\<close> in each, a model class
  that inherits everything, a backend that is a number of weights, and a pickle that
  knows two parameter objects.
\<close>

definition example_tasks :: "task list" where
  "example_tasks =
     [Task ''BaseTask'' [] [],
      Task ''Classification'' [''categorical_crossentropy''] [''acc''],
      Task ''Ranking'' [''mse'', ''mae''] [''mae'', ''map'']]"

definition example_ModelParams :: params where
  "example_ModelParams =
     [(''name'', PNone), (''model_class'', PNone), (''input_shapes'', PNone),
      (''task'', PNone), (''metrics'', PNone), (''loss'', PNone), (''optimizer'', PNone)]"

definition NaiveModel :: model_class where
  "NaiveModel = ModelClass ''NaiveModel'' None"

definition fresh_model :: "nat model" where
  "fresh_model = init example_ModelParams NaiveModel None (Some 3)"

text \<open>A model given its parameters, with \<open>None\<close> as its \<open>model_class\<close>.\<close>

definition unguessed_params :: params where
  "unguessed_params =
     [(''name'', PStr ''naive''), (''model_class'', PNone), (''optimizer'', PStr ''sgd'')]"

definition unguessed_model :: "nat model" where
  "unguessed_model = init example_ModelParams NaiveModel (Some unguessed_params) (Some 3)"

definition guessed_params :: params where
  "guessed_params =
     [(''name'', PStr ''NaiveModel''),
      (''model_class'', PClass NaiveModel),
      (''input_shapes'', PList [PTuple [PInt 30], PTuple [PInt 30]]),
      (''task'', PTask (Task ''Classification'' [''categorical_crossentropy''] [''acc''])),
      (''metrics'', PList [PStr ''acc'']),
      (''loss'', PStr ''categorical_crossentropy''),
      (''optimizer'', PStr ''adam'')]"

definition guessed_model :: "nat model" where
  "guessed_model = \<lparr>model_cls = NaiveModel, params = guessed_params, backend = Some 3\<rparr>"

definition example_keras :: "(nat, int) keras" where
  "example_keras =
     \<lparr>keras_load_model = (\<lambda>bs. Inr (length bs)),
      keras_save = (\<lambda>b. Inr (replicate b CHR ''w'')),
      keras_compile = (\<lambda>b optimizer loss metrics. (None, b)),
      keras_fit = (\<lambda>b x y batch_size epochs. (Inr (x + y + batch_size), b + nat epochs)),
      keras_evaluate = (\<lambda>b x y batch_size. (Inr (x - y + batch_size), b)),
      keras_predict = (\<lambda>b x batch_size. (Inr (x * int b + batch_size), b))\<rparr>"

definition example_pickle :: pickle where
  "example_pickle =
     \<lparr>pickle_dump = (\<lambda>ps. if ps = unguessed_params then Inr ''unguessed''
                          else if ps = guessed_params then Inr ''guessed''
                          else Inl PicklingError),
      pickle_load = (\<lambda>bs. if bs = ''unguessed'' then Inr unguessed_params
                          else if bs = ''guessed'' then Inr guessed_params
                          else Inl UnpicklingError)\<rparr>"

definition example_fs :: fs where
  "example_fs = [([''models''], Dir), ([''models'', ''readme.txt''], File ''saved models'')]"

definition custom_model :: "nat model" where
  "custom_model =
     \<lparr>model_cls = NaiveModel,
      params = setitem (setitem example_ModelParams ''optimizer'' (PStr ''sgd'')) ''my_param''
                 (PStr ''param''),
      backend = None\<rparr>"

definition example_dir :: path where
  "example_dir = [''models'', ''naive'']"

definition saved_guessed_fs :: fs where
  "saved_guessed_fs =
     example_fs @
     [([''models'', ''naive''], Dir),
      ([''models'', ''naive'', ''backend.h5''], File ''www''),
      ([''models'', ''naive'', ''params.pkl''], File ''guessed'')]"

definition saved_unguessed_fs :: fs where
  "saved_unguessed_fs =
     example_fs @
     [([''models'', ''naive''], Dir),
      ([''models'', ''naive'', ''backend.h5''], File ''www''),
      ([''models'', ''naive'', ''params.pkl''], File ''unguessed'')]"

section \<open>Properties of the parameter statements\<close>

lemma fill_missing_cases:
  assumes "fill_missing k d m = (r, m')"
  obtains (absent) "map_of (params m) k = None" "r = Some (KeyError k)" "m' = m"
  | (kept) v where "map_of (params m) k = Some v" "v \<noteq> PNone" "r = None" "m' = m"
  | (failed) e where "map_of (params m) k = Some PNone" "d m = Inl e" "r = Some e" "m' = m"
  | (filled) v where "map_of (params m) k = Some PNone" "d m = Inr v" "r = None"
      "m' = m\<lparr>params := setitem (params m) k v\<rparr>"
  using assms
  by (auto simp: fill_missing_def getitem_def split: option.splits sum.splits if_splits)

lemma map_of_setitem: "map_of (setitem ps k v) = (map_of ps)(k \<mapsto> v)"
  by (simp add: setitem_def update_conv')

lemma keys_setitem:
  "map_of ps k = Some x \<Longrightarrow> map fst (setitem ps k v) = map fst ps"
  by (auto simp: setitem_def update_keys dest: map_of_SomeD intro: rev_image_eqI)

lemma fill_missing_frame:
  assumes "fill_missing k d m = (r, m')"
  shows "model_cls m' = model_cls m" and "backend m' = backend m"
    and "map fst (params m') = map fst (params m)"
    and "k' \<noteq> k \<Longrightarrow> map_of (params m') k' = map_of (params m) k'"
    and "map_of (params m) k' = Some v \<Longrightarrow> v \<noteq> PNone \<Longrightarrow> map_of (params m') k' = Some v"
  using assms
  by (cases rule: fill_missing_cases; auto simp: map_of_setitem keys_setitem)+

lemma fill_all_step:
  "fill_missing k d m = (r1, m1) \<Longrightarrow>
   fill_all ((k, d) # fs) m = (case r1 of None \<Rightarrow> fill_all fs m1 | Some e \<Rightarrow> (Some e, m1))"
  by (simp split: option.splits)

lemma fill_all_frame_all:
  "fill_all fs m = (r, m') \<Longrightarrow>
   model_cls m' = model_cls m \<and> backend m' = backend m \<and>
   map fst (params m') = map fst (params m) \<and>
   (\<forall>k'. k' \<notin> fst ` set fs \<longrightarrow> map_of (params m') k' = map_of (params m) k') \<and>
   (\<forall>k' v. map_of (params m) k' = Some v \<longrightarrow> v \<noteq> PNone \<longrightarrow> map_of (params m') k' = Some v)"
proof (induction fs arbitrary: m)
  case Nil
  then show ?case by simp
next
  case (Cons a fs)
  obtain k d where a: "a = (k, d)" by (cases a)
  obtain r1 m1 where s: "fill_missing k d m = (r1, m1)" by (cases "fill_missing k d m")
  note fr = fill_missing_frame [OF s]
  show ?case
  proof (cases r1)
    case None
    with Cons.prems a fill_all_step [OF s, of fs] have "fill_all fs m1 = (r, m')" by simp
    from Cons.IH [OF this] fr show ?thesis by (simp add: a)
  next
    case (Some e)
    with Cons.prems a fill_all_step [OF s, of fs] have "m' = m1" by simp
    with fr show ?thesis by (simp add: a)
  qed
qed

lemma fill_missing_noop:
  "map_of (params m) k = Some v \<Longrightarrow> v \<noteq> PNone \<Longrightarrow> fill_missing k d m = (None, m)"
  by (simp add: fill_missing_def getitem_def)

lemma fill_all_idem:
  assumes nn: "\<forall>(k, d) \<in> set fs. \<forall>m v. d m = Inr v \<longrightarrow> v \<noteq> PNone"
  shows "fill_all fs m = (r, m') \<Longrightarrow> fill_all fs m' = (r, m')"
  using nn
proof (induction fs arbitrary: m)
  case Nil
  then show ?case by simp
next
  case (Cons a fs)
  obtain k d where a: "a = (k, d)" by (cases a)
  obtain r1 m1 where s: "fill_missing k d m = (r1, m1)" by (cases "fill_missing k d m")
  from Cons.prems a have dn: "\<And>m v. d m = Inr v \<Longrightarrow> v \<noteq> PNone"
    and rest: "\<forall>(k, d) \<in> set fs. \<forall>m v. d m = Inr v \<longrightarrow> v \<noteq> PNone" by auto
  from s show ?case
  proof (cases rule: fill_missing_cases)
    case absent
    with Cons.prems(1) a fill_all_step [OF s, of fs] show ?thesis by simp
  next
    case (failed e)
    with Cons.prems(1) a fill_all_step [OF s, of fs] show ?thesis by simp
  next
    case (kept v)
    with Cons.prems(1) a fill_all_step [OF s, of fs] have run: "fill_all fs m = (r, m')" by simp
    from fill_all_frame_all [OF run] kept have "map_of (params m') k = Some v" by blast
    from fill_missing_noop [OF this kept(2)] have "fill_missing k d m' = (None, m')" .
    from fill_all_step [OF this, of fs] Cons.IH [OF run rest] a show ?thesis by simp
  next
    case (filled v)
    with Cons.prems(1) a fill_all_step [OF s, of fs] have run: "fill_all fs m1 = (r, m')" by simp
    have v: "v \<noteq> PNone" using dn filled(2) by blast
    have "map_of (params m1) k = Some v" using filled(4) by (simp add: map_of_setitem)
    with fill_all_frame_all [OF run] v have "map_of (params m') k = Some v" by blast
    from fill_missing_noop [OF this v] have "fill_missing k d m' = (None, m')" .
    from fill_all_step [OF this, of fs] Cons.IH [OF run rest] a show ?thesis by simp
  qed
qed

lemma fill_all_Cons_None:
  assumes "fill_all ((k, d) # fs) m = (None, m')"
  obtains m1 where "fill_missing k d m = (None, m1)" and "fill_all fs m1 = (None, m')"
  using assms by (cases "fill_missing k d m") (auto split: option.splits)

lemma fill_missing_None:
  assumes "fill_missing k d m = (None, m1)"
  obtains v where "map_of (params m1) k = Some v"
    and "map_of (params m) k = Some v \<and> v \<noteq> PNone \<or> map_of (params m) k = Some PNone \<and> d m = Inr v"
  using assms by (cases rule: fill_missing_cases) (auto simp: map_of_setitem)

lemma guess_task_Inr:
  "guess_task tasks m = Inr v \<Longrightarrow> \<exists>a t rest. tasks = a # t # rest \<and> v = PTask t"
  by (auto simp: guess_task_def split: list.splits)

lemma guess_metrics_Inr:
  "guess_metrics m = Inr v \<Longrightarrow>
   \<exists>t. map_of (params m) ''task'' = Some (PTask t) \<and>
       v = PList (map PStr (list_available_metrics t))"
  by (cases "map_of (params m) ''task''"; cases "the (map_of (params m) ''task'')")
     (auto simp: guess_metrics_def getitem_def split: sum.splits)

lemma guess_loss_Inr:
  "guess_loss m = Inr v \<Longrightarrow>
   \<exists>t l ls. map_of (params m) ''task'' = Some (PTask t) \<and>
       list_available_losses t = l # ls \<and> v = PStr l"
  by (cases "map_of (params m) ''task''"; cases "the (map_of (params m) ''task'')")
     (auto simp: guess_loss_def getitem_def split: sum.splits list.splits)

lemma guesses_not_None:
  "guess_name m = Inr v \<Longrightarrow> v \<noteq> PNone"
  "guess_model_class m = Inr v \<Longrightarrow> v \<noteq> PNone"
  "guess_task tasks m = Inr v \<Longrightarrow> v \<noteq> PNone"
  "guess_input_shapes m = Inr v \<Longrightarrow> v \<noteq> PNone"
  "guess_metrics m = Inr v \<Longrightarrow> v \<noteq> PNone"
  "guess_loss m = Inr v \<Longrightarrow> v \<noteq> PNone"
  "guess_optimizer m = Inr v \<Longrightarrow> v \<noteq> PNone"
  by (auto simp: guess_name_def guess_model_class_def guess_input_shapes_def
      guess_optimizer_def dest: guess_task_Inr guess_metrics_Inr guess_loss_Inr)

section \<open>Guessing and filling the missing parameters\<close>

text \<open>
  C5. When \<^verbatim>\<open>guess_and_fill_missing_params\<close> returns, each of \<open>name\<close>,
  \<open>model_class\<close>, \<open>task\<close>, \<open>input_shapes\<close>, \<open>metrics\<close>, \<open>loss\<close> and \<open>optimizer\<close>
  holds a value that is not \<open>None\<close>, and an entry that was \<open>None\<close> before the call
  holds its default: the name of the class, the class, an instance of the second
  available task, \<open>[(30,), (30,)]\<close>, the list of all metrics of the task in the
  parameters, the first loss of that task, and \<open>'adam'\<close>.
\<close>

theorem guess_and_fill_missing_params_defaults:
  assumes run: "guess_and_fill_missing_params tasks m = (None, m')"
  shows "(is_filled (params m') ''name'' \<and> is_filled (params m') ''model_class'' \<and>
          is_filled (params m') ''task'' \<and> is_filled (params m') ''input_shapes'' \<and>
          is_filled (params m') ''metrics'' \<and> is_filled (params m') ''loss'' \<and>
          is_filled (params m') ''optimizer'') \<and>
         (map_of (params m) ''name'' = Some PNone \<longrightarrow>
            map_of (params m') ''name'' = Some (PStr (cls_name (model_cls m)))) \<and>
         (map_of (params m) ''model_class'' = Some PNone \<longrightarrow>
            map_of (params m') ''model_class'' = Some (PClass (model_cls m))) \<and>
         (map_of (params m) ''task'' = Some PNone \<longrightarrow>
            (\<exists>a t rest. tasks = a # t # rest \<and>
               map_of (params m') ''task'' = Some (PTask t))) \<and>
         (map_of (params m) ''input_shapes'' = Some PNone \<longrightarrow>
            map_of (params m') ''input_shapes'' =
              Some (PList [PTuple [PInt 30], PTuple [PInt 30]])) \<and>
         (map_of (params m) ''metrics'' = Some PNone \<longrightarrow>
            (\<exists>t. map_of (params m') ''task'' = Some (PTask t) \<and>
               map_of (params m') ''metrics'' =
                 Some (PList (map PStr (list_available_metrics t))))) \<and>
         (map_of (params m) ''loss'' = Some PNone \<longrightarrow>
            (\<exists>t l ls. map_of (params m') ''task'' = Some (PTask t) \<and>
               list_available_losses t = l # ls \<and>
               map_of (params m') ''loss'' = Some (PStr l))) \<and>
         (map_of (params m) ''optimizer'' = Some PNone \<longrightarrow>
            map_of (params m') ''optimizer'' = Some (PStr ''adam''))"
proof -
  from run obtain m1 where s1: "fill_missing ''name'' guess_name m = (None, m1)"
    and r1: "fill_all [(''model_class'', guess_model_class), (''task'', guess_task tasks),
      (''input_shapes'', guess_input_shapes), (''metrics'', guess_metrics),
      (''loss'', guess_loss), (''optimizer'', guess_optimizer)] m1 = (None, m')"
    unfolding guess_and_fill_missing_params_def by (rule fill_all_Cons_None)
  from r1 obtain m2 where s2: "fill_missing ''model_class'' guess_model_class m1 = (None, m2)"
    and r2: "fill_all [(''task'', guess_task tasks),
      (''input_shapes'', guess_input_shapes), (''metrics'', guess_metrics),
      (''loss'', guess_loss), (''optimizer'', guess_optimizer)] m2 = (None, m')"
    by (rule fill_all_Cons_None)
  from r2 obtain m3 where s3: "fill_missing ''task'' (guess_task tasks) m2 = (None, m3)"
    and r3: "fill_all [(''input_shapes'', guess_input_shapes), (''metrics'', guess_metrics),
      (''loss'', guess_loss), (''optimizer'', guess_optimizer)] m3 = (None, m')"
    by (rule fill_all_Cons_None)
  from r3 obtain m4 where s4: "fill_missing ''input_shapes'' guess_input_shapes m3 = (None, m4)"
    and r4: "fill_all [(''metrics'', guess_metrics),
      (''loss'', guess_loss), (''optimizer'', guess_optimizer)] m4 = (None, m')"
    by (rule fill_all_Cons_None)
  from r4 obtain m5 where s5: "fill_missing ''metrics'' guess_metrics m4 = (None, m5)"
    and r5: "fill_all [(''loss'', guess_loss), (''optimizer'', guess_optimizer)] m5 = (None, m')"
    by (rule fill_all_Cons_None)
  from r5 obtain m6 where s6: "fill_missing ''loss'' guess_loss m5 = (None, m6)"
    and r6: "fill_all [(''optimizer'', guess_optimizer)] m6 = (None, m')"
    by (rule fill_all_Cons_None)
  from r6 have s7: "fill_missing ''optimizer'' guess_optimizer m6 = (None, m')"
    by (rule fill_all_Cons_None) simp
  note whole = fill_all_frame_all [OF run [unfolded guess_and_fill_missing_params_def]]
  note f1 = fill_all_frame_all [OF r1] and f2 = fill_all_frame_all [OF r2]
    and f3 = fill_all_frame_all [OF r3] and f4 = fill_all_frame_all [OF r4]
    and f5 = fill_all_frame_all [OF r5] and f6 = fill_all_frame_all [OF r6]
  note p1 = fill_missing_frame [OF s1] and p2 = fill_missing_frame [OF s2]
    and p3 = fill_missing_frame [OF s3] and p4 = fill_missing_frame [OF s4]
    and p5 = fill_missing_frame [OF s5] and p6 = fill_missing_frame [OF s6]

  from s1 obtain v1 where a1: "map_of (params m1) ''name'' = Some v1"
    and b1: "map_of (params m) ''name'' = Some v1 \<and> v1 \<noteq> PNone \<or>
             map_of (params m) ''name'' = Some PNone \<and> guess_name m = Inr v1"
    by (rule fill_missing_None)
  have n1: "v1 \<noteq> PNone" using b1 guesses_not_None(1) by blast
  have e1: "map_of (params m') ''name'' = Some v1" using f1 a1 n1 by blast
  have d1: "map_of (params m) ''name'' = Some PNone \<Longrightarrow> v1 = PStr (cls_name (model_cls m))"
    using b1 by (auto simp: guess_name_def)

  from s2 obtain v2 where a2: "map_of (params m2) ''model_class'' = Some v2"
    and b2: "map_of (params m1) ''model_class'' = Some v2 \<and> v2 \<noteq> PNone \<or>
             map_of (params m1) ''model_class'' = Some PNone \<and> guess_model_class m1 = Inr v2"
    by (rule fill_missing_None)
  have n2: "v2 \<noteq> PNone" using b2 guesses_not_None(2) by blast
  have e2: "map_of (params m') ''model_class'' = Some v2" using f2 a2 n2 by blast
  have k2: "map_of (params m1) ''model_class'' = map_of (params m) ''model_class''"
    using p1(4) by simp
  have d2: "map_of (params m) ''model_class'' = Some PNone \<Longrightarrow> v2 = PClass (model_cls m)"
    using b2 k2 p1(1) by (auto simp: guess_model_class_def)

  from s3 obtain v3 where a3: "map_of (params m3) ''task'' = Some v3"
    and b3: "map_of (params m2) ''task'' = Some v3 \<and> v3 \<noteq> PNone \<or>
             map_of (params m2) ''task'' = Some PNone \<and> guess_task tasks m2 = Inr v3"
    by (rule fill_missing_None)
  have n3: "v3 \<noteq> PNone" using b3 guesses_not_None(3) by blast
  have e3: "map_of (params m') ''task'' = Some v3" using f3 a3 n3 by blast
  have k3: "map_of (params m2) ''task'' = map_of (params m) ''task''"
    using p1(4) [of "''task''"] p2(4) [of "''task''"] by simp
  have d3: "map_of (params m) ''task'' = Some PNone \<Longrightarrow>
            \<exists>a t rest. tasks = a # t # rest \<and> v3 = PTask t"
    using b3 k3 guess_task_Inr [of tasks m2 v3] by auto

  from s4 obtain v4 where a4: "map_of (params m4) ''input_shapes'' = Some v4"
    and b4: "map_of (params m3) ''input_shapes'' = Some v4 \<and> v4 \<noteq> PNone \<or>
             map_of (params m3) ''input_shapes'' = Some PNone \<and> guess_input_shapes m3 = Inr v4"
    by (rule fill_missing_None)
  have n4: "v4 \<noteq> PNone" using b4 guesses_not_None(4) by blast
  have e4: "map_of (params m') ''input_shapes'' = Some v4" using f4 a4 n4 by blast
  have k4: "map_of (params m3) ''input_shapes'' = map_of (params m) ''input_shapes''"
    using p1(4) [of "''input_shapes''"] p2(4) [of "''input_shapes''"]
      p3(4) [of "''input_shapes''"] by simp
  have d4: "map_of (params m) ''input_shapes'' = Some PNone \<Longrightarrow>
            v4 = PList [PTuple [PInt 30], PTuple [PInt 30]]"
    using b4 k4 by (auto simp: guess_input_shapes_def)

  have t4: "map_of (params m4) ''task'' = Some v3" using p4(4) [of "''task''"] a3 by simp
  have t5: "map_of (params m5) ''task'' = Some v3" using p5(4) [of "''task''"] t4 by simp

  from s5 obtain v5 where a5: "map_of (params m5) ''metrics'' = Some v5"
    and b5: "map_of (params m4) ''metrics'' = Some v5 \<and> v5 \<noteq> PNone \<or>
             map_of (params m4) ''metrics'' = Some PNone \<and> guess_metrics m4 = Inr v5"
    by (rule fill_missing_None)
  have n5: "v5 \<noteq> PNone" using b5 guesses_not_None(5) by blast
  have e5: "map_of (params m') ''metrics'' = Some v5" using f5 a5 n5 by blast
  have k5: "map_of (params m4) ''metrics'' = map_of (params m) ''metrics''"
    using p1(4) [of "''metrics''"] p2(4) [of "''metrics''"]
      p3(4) [of "''metrics''"] p4(4) [of "''metrics''"] by simp
  have d5: "map_of (params m) ''metrics'' = Some PNone \<Longrightarrow>
            \<exists>t. v3 = PTask t \<and> v5 = PList (map PStr (list_available_metrics t))"
    using b5 k5 t4 guess_metrics_Inr [of m4 v5] by auto

  from s6 obtain v6 where a6: "map_of (params m6) ''loss'' = Some v6"
    and b6: "map_of (params m5) ''loss'' = Some v6 \<and> v6 \<noteq> PNone \<or>
             map_of (params m5) ''loss'' = Some PNone \<and> guess_loss m5 = Inr v6"
    by (rule fill_missing_None)
  have n6: "v6 \<noteq> PNone" using b6 guesses_not_None(6) by blast
  have e6: "map_of (params m') ''loss'' = Some v6" using f6 a6 n6 by blast
  have k6: "map_of (params m5) ''loss'' = map_of (params m) ''loss''"
    using p1(4) [of "''loss''"] p2(4) [of "''loss''"] p3(4) [of "''loss''"]
      p4(4) [of "''loss''"] p5(4) [of "''loss''"] by simp
  have d6: "map_of (params m) ''loss'' = Some PNone \<Longrightarrow>
            \<exists>t l ls. v3 = PTask t \<and> list_available_losses t = l # ls \<and> v6 = PStr l"
    using b6 k6 t5 guess_loss_Inr [of m5 v6] by auto

  from s7 obtain v7 where a7: "map_of (params m') ''optimizer'' = Some v7"
    and b7: "map_of (params m6) ''optimizer'' = Some v7 \<and> v7 \<noteq> PNone \<or>
             map_of (params m6) ''optimizer'' = Some PNone \<and> guess_optimizer m6 = Inr v7"
    by (rule fill_missing_None)
  have n7: "v7 \<noteq> PNone" using b7 guesses_not_None(7) by blast
  have k7: "map_of (params m6) ''optimizer'' = map_of (params m) ''optimizer''"
    using p1(4) [of "''optimizer''"] p2(4) [of "''optimizer''"] p3(4) [of "''optimizer''"]
      p4(4) [of "''optimizer''"] p5(4) [of "''optimizer''"] p6(4) [of "''optimizer''"]
    by simp
  have d7: "map_of (params m) ''optimizer'' = Some PNone \<Longrightarrow> v7 = PStr ''adam''"
    using b7 k7 by (auto simp: guess_optimizer_def)

  have filled: "is_filled (params m') ''name'' \<and> is_filled (params m') ''model_class'' \<and>
      is_filled (params m') ''task'' \<and> is_filled (params m') ''input_shapes'' \<and>
      is_filled (params m') ''metrics'' \<and> is_filled (params m') ''loss'' \<and>
      is_filled (params m') ''optimizer''"
    using e1 n1 e2 n2 e3 n3 e4 n4 e5 n5 e6 n6 a7 n7 by (simp add: is_filled_def)
  show ?thesis
    using filled e1 d1 e2 d2 e3 d3 e4 d4 e5 d5 e6 d6 a7 d7 by blast
qed

theorem guess_and_fill_missing_params_defaults_witness:
  "guess_and_fill_missing_params example_tasks fresh_model = (None, guessed_model) \<and>
   is_filled (params guessed_model) ''task'' \<and>
   map_of (params guessed_model) ''optimizer'' = Some (PStr ''adam'') \<and>
   map_of (params guessed_model) ''name'' = Some (PStr ''NaiveModel'')"
proof -
  have run: "guess_and_fill_missing_params example_tasks fresh_model = (None, guessed_model)"
    by (simp add: guess_and_fill_missing_params_def fill_missing_def getitem_def setitem_def
        fresh_model_def guessed_model_def guessed_params_def init_def truthy_def
        cls_get_default_params_def get_default_params_def example_ModelParams_def NaiveModel_def
        example_tasks_def guess_name_def guess_model_class_def guess_task_def
        guess_input_shapes_def guess_metrics_def guess_loss_def guess_optimizer_def)
  have old: "map_of (params fresh_model) ''optimizer'' = Some PNone"
    "map_of (params fresh_model) ''name'' = Some PNone"
    "cls_name (model_cls fresh_model) = ''NaiveModel''"
    by (simp_all add: fresh_model_def init_def truthy_def cls_get_default_params_def
        get_default_params_def example_ModelParams_def NaiveModel_def)
  from guess_and_fill_missing_params_defaults [OF run] old run show ?thesis by simp
qed

text \<open>
  C6. \<^verbatim>\<open>guess_and_fill_missing_params\<close> only fills what is missing: however the call
  ends, an entry that held a value other than \<open>None\<close> holds that value afterwards, every
  key other than the seven holds what it held, and no key is added.
\<close>

theorem guess_and_fill_missing_params_frame:
  assumes "guess_and_fill_missing_params tasks m = (r, m')"
  shows "(\<forall>k v. map_of (params m) k = Some v \<longrightarrow> v \<noteq> PNone \<longrightarrow>
            map_of (params m') k = Some v) \<and>
         (\<forall>k. k \<notin> {''name'', ''model_class'', ''task'', ''input_shapes'', ''metrics'',
                   ''loss'', ''optimizer''} \<longrightarrow>
            map_of (params m') k = map_of (params m) k) \<and>
         map fst (params m') = map fst (params m)"
  using fill_all_frame_all [OF assms [unfolded guess_and_fill_missing_params_def]]
  by simp

theorem guess_and_fill_missing_params_frame_witness:
  "map_of (params custom_model) ''optimizer'' = Some (PStr ''sgd'') \<and>
   map_of (params (snd (guess_and_fill_missing_params example_tasks custom_model)))
     ''optimizer'' = Some (PStr ''sgd'') \<and>
   map_of (params (snd (guess_and_fill_missing_params example_tasks custom_model)))
     ''my_param'' = Some (PStr ''param'')"
proof -
  have run: "guess_and_fill_missing_params example_tasks custom_model =
      (fst (guess_and_fill_missing_params example_tasks custom_model),
       snd (guess_and_fill_missing_params example_tasks custom_model))"
    by simp
  have old: "map_of (params custom_model) ''optimizer'' = Some (PStr ''sgd'')"
    "map_of (params custom_model) ''my_param'' = Some (PStr ''param'')"
    by (simp_all add: custom_model_def setitem_def example_ModelParams_def)
  from guess_and_fill_missing_params_frame [OF run] old show ?thesis by simp
qed

text \<open>
  C9. \<^verbatim>\<open>guess_and_fill_missing_params\<close> is idempotent: a second call right after the
  first ends as the first did and leaves the model, with every parameter, as the first
  call left it.
\<close>

theorem guess_and_fill_missing_params_idempotent:
  "guess_and_fill_missing_params tasks (snd (guess_and_fill_missing_params tasks m)) =
     guess_and_fill_missing_params tasks m"
proof -
  obtain r m' where run: "guess_and_fill_missing_params tasks m = (r, m')"
    by (cases "guess_and_fill_missing_params tasks m")
  have "guess_and_fill_missing_params tasks m' = (r, m')"
    using run unfolding guess_and_fill_missing_params_def
    by (rule fill_all_idem [rotated]) (auto dest: guesses_not_None)
  with run show ?thesis by simp
qed

theorem guess_and_fill_missing_params_idempotent_witness:
  "guess_and_fill_missing_params example_tasks guessed_model = (None, guessed_model)"
proof -
  have run: "guess_and_fill_missing_params example_tasks fresh_model = (None, guessed_model)"
    by (simp add: guess_and_fill_missing_params_def fill_missing_def getitem_def setitem_def
        fresh_model_def guessed_model_def guessed_params_def init_def truthy_def
        cls_get_default_params_def get_default_params_def example_ModelParams_def NaiveModel_def
        example_tasks_def guess_name_def guess_model_class_def guess_task_def
        guess_input_shapes_def guess_metrics_def guess_loss_def guess_optimizer_def)
  from guess_and_fill_missing_params_idempotent [of example_tasks fresh_model] run
  show ?thesis by simp
qed

section \<open>The constructor\<close>

text \<open>
  C8. The constructor tests the truth value of its argument: \<open>None\<close> and a parameter
  object with no entry are both replaced by what \<^verbatim>\<open>get_default_params\<close> of the class
  returns, and an object with an entry is stored as it is given.
\<close>

theorem init_params_truthiness:
  "params (init ModelParams cls None be) = cls_get_default_params ModelParams cls \<and>
   params (init ModelParams cls (Some []) be) = cls_get_default_params ModelParams cls \<and>
   (ps \<noteq> [] \<longrightarrow> params (init ModelParams cls (Some ps) be) = ps) \<and>
   (\<not> truthy arg \<longrightarrow>
      params (init ModelParams cls arg be) = cls_get_default_params ModelParams cls) \<and>
   model_cls (init ModelParams cls arg be) = cls \<and> backend (init ModelParams cls arg be) = be"
  by (simp add: init_def truthy_def)

theorem init_params_truthiness_witness:
  "guessed_params \<noteq> [] \<and> \<not> truthy (Some []) \<and>
   params (init example_ModelParams NaiveModel (Some guessed_params) (Some (3::nat))) =
     guessed_params \<and>
   params (init example_ModelParams NaiveModel (Some []) (Some (3::nat))) =
     example_ModelParams"
proof -
  have ne: "guessed_params \<noteq> []" by (simp add: guessed_params_def)
  have fy: "\<not> truthy (Some [])" by (simp add: truthy_def)
  have df: "cls_get_default_params example_ModelParams NaiveModel = example_ModelParams"
    by (simp add: cls_get_default_params_def NaiveModel_def get_default_params_def)
  from init_params_truthiness [of example_ModelParams NaiveModel "Some (3::nat)"
      guessed_params "Some []"] ne fy df
  show ?thesis by simp
qed

section \<open>Forwarding to the backend\<close>

text \<open>
  C4. With a backend set, \<^verbatim>\<open>fit\<close>, \<^verbatim>\<open>evaluate\<close> and \<^verbatim>\<open>predict\<close> return what the
  method of the backend returns on the same arguments, whichever of the keyword
  arguments are given: a batch size left out is 128 and epochs left out are 1, each on
  its own. \<^verbatim>\<open>compile\<close> calls the \<^verbatim>\<open>compile\<close> of the backend with the entries
  \<open>optimizer\<close>, \<open>loss\<close> and \<open>metrics\<close> of the parameters. Nothing but the backend
  changes in the model.
\<close>

theorem forwarding_to_backend:
  assumes "backend m = Some b"
  shows "fit K m x y (Some batch_size) (Some epochs) =
           (fst (keras_fit K b x y batch_size epochs),
            m\<lparr>backend := Some (snd (keras_fit K b x y batch_size epochs))\<rparr>) \<and>
         fit K m x y (Some batch_size) None =
           (fst (keras_fit K b x y batch_size 1),
            m\<lparr>backend := Some (snd (keras_fit K b x y batch_size 1))\<rparr>) \<and>
         fit K m x y None (Some epochs) =
           (fst (keras_fit K b x y 128 epochs),
            m\<lparr>backend := Some (snd (keras_fit K b x y 128 epochs))\<rparr>) \<and>
         fit K m x y None None =
           (fst (keras_fit K b x y 128 1), m\<lparr>backend := Some (snd (keras_fit K b x y 128 1))\<rparr>) \<and>
         evaluate K m x y (Some batch_size) =
           (fst (keras_evaluate K b x y batch_size),
            m\<lparr>backend := Some (snd (keras_evaluate K b x y batch_size))\<rparr>) \<and>
         evaluate K m x y None =
           (fst (keras_evaluate K b x y 128),
            m\<lparr>backend := Some (snd (keras_evaluate K b x y 128))\<rparr>) \<and>
         predict K m x (Some batch_size) =
           (fst (keras_predict K b x batch_size),
            m\<lparr>backend := Some (snd (keras_predict K b x batch_size))\<rparr>) \<and>
         predict K m x None =
           (fst (keras_predict K b x 128), m\<lparr>backend := Some (snd (keras_predict K b x 128))\<rparr>) \<and>
         (map_of (params m) ''optimizer'' = Some optimizer \<longrightarrow>
          map_of (params m) ''loss'' = Some loss \<longrightarrow>
          map_of (params m) ''metrics'' = Some metrics \<longrightarrow>
            compile K m =
              (fst (keras_compile K b optimizer loss metrics),
               m\<lparr>backend := Some (snd (keras_compile K b optimizer loss metrics))\<rparr>))"
  using assms
  by (simp add: fit_def evaluate_def predict_def compile_def getitem_def or_default_def
      split: prod.splits)

theorem forwarding_to_backend_witness:
  "backend guessed_model = Some 3 \<and>
   fit example_keras guessed_model 3 4 None None =
     (Inr 135, guessed_model\<lparr>backend := Some 4\<rparr>) \<and>
   fit example_keras guessed_model 3 4 (Some 32) None =
     (Inr 39, guessed_model\<lparr>backend := Some 4\<rparr>) \<and>
   fit example_keras guessed_model 3 4 None (Some 5) =
     (Inr 135, guessed_model\<lparr>backend := Some 8\<rparr>) \<and>
   fit example_keras guessed_model 3 4 (Some 32) (Some 5) =
     (Inr 39, guessed_model\<lparr>backend := Some 8\<rparr>) \<and>
   evaluate example_keras guessed_model 3 4 None = (Inr 127, guessed_model) \<and>
   evaluate example_keras guessed_model 3 4 (Some 32) = (Inr 31, guessed_model) \<and>
   predict example_keras guessed_model 3 None = (Inr 137, guessed_model) \<and>
   predict example_keras guessed_model 3 (Some 32) = (Inr 41, guessed_model) \<and>
   compile example_keras guessed_model = (None, guessed_model)"
proof -
  have b: "backend guessed_model = Some 3" by (simp add: guessed_model_def)
  have p: "map_of (params guessed_model) ''optimizer'' = Some (PStr ''adam'')"
    "map_of (params guessed_model) ''loss'' = Some (PStr ''categorical_crossentropy'')"
    "map_of (params guessed_model) ''metrics'' = Some (PList [PStr ''acc''])"
    by (simp_all add: guessed_model_def guessed_params_def)
  have same: "guessed_model\<lparr>backend := Some 3\<rparr> = guessed_model"
    by (simp add: guessed_model_def)
  from forwarding_to_backend [where K = example_keras and x = 3 and y = 4
      and batch_size = 32 and epochs = 5
      and optimizer = "PStr ''adam''" and loss = "PStr ''categorical_crossentropy''"
      and metrics = "PList [PStr ''acc'']", OF b] p b same
  show ?thesis by (simp add: example_keras_def)
qed

section \<open>Properties of the file system\<close>

lemma lookup_update:
  "q \<noteq> [] \<Longrightarrow> lookup (AList.update q n fs) p = (if p = q then Some n else lookup fs p)"
  by (simp add: lookup_def update_conv')

lemma joinpath_simps [simp]:
  "joinpath d name \<noteq> []" "joinpath d name \<noteq> d" "d \<noteq> joinpath d name"
  "parent (joinpath d name) = d"
  "joinpath d name = joinpath d name' \<longleftrightarrow> name = name'"
  "last (joinpath d name) = name"
  by (simp_all add: joinpath_def parent_def)

lemma filenames_differ [simp]:
  "BACKEND_FILENAME \<noteq> PARAMS_FILENAME" "PARAMS_FILENAME \<noteq> BACKEND_FILENAME"
  by (simp_all add: BACKEND_FILENAME_def PARAMS_FILENAME_def)

lemma not_exists_not_root: "\<not> path_exists fs d \<Longrightarrow> d \<noteq> []"
  by (auto simp: path_exists_def lookup_def)

lemma mkdir_Inr:
  "mkdir fs p = Inr fs1 \<longleftrightarrow>
   \<not> path_exists fs p \<and> lookup fs (parent p) = Some Dir \<and> fs1 = AList.update p Dir fs"
  by (auto simp: mkdir_def split: option.splits node.splits)


lemma open_wb_Inr:
  "open_wb fs p = Inr fs1 \<Longrightarrow>
   lookup fs p \<noteq> Some Dir \<and> lookup fs (parent p) = Some Dir \<and>
   fs1 = AList.update p (File []) fs"
  by (auto simp: open_wb_def split: option.splits node.splits)

lemma open_wb_ok:
  "lookup fs p \<noteq> Some Dir \<Longrightarrow> lookup fs (parent p) = Some Dir \<Longrightarrow>
   open_wb fs p = Inr (AList.update p (File []) fs)"
  by (auto simp: open_wb_def split: option.splits node.splits)


lemma set_listdir:
  "set (listdir fs d) = last ` {p \<in> fst ` set fs. p \<noteq> [] \<and> parent p = d}"
  by (force simp: listdir_def image_iff)

lemma wf_fs_no_children:
  assumes "wf_fs fs" and "\<not> path_exists fs d" and "p \<in> fst ` set fs"
  shows "parent p \<noteq> d"
proof
  assume pd: "parent p = d"
  from assms(3) obtain n where "(p, n) \<in> set fs" by auto
  with assms(1) have "lookup fs (parent p) = Some Dir"
    by (auto simp: wf_fs_def list_all_iff)
  with pd assms(2) show False by (simp add: path_exists_def)
qed

lemma lookup_saved_fs:
  "d \<noteq> [] \<Longrightarrow>
   lookup (saved_fs d h5 pkl fs) p =
     (if p = joinpath d PARAMS_FILENAME then Some (File pkl)
      else if p = joinpath d BACKEND_FILENAME then Some (File h5)
      else if p = d then Some Dir
      else lookup fs p)"
  by (simp add: saved_fs_def write_bytes_def lookup_update)

lemma keys_saved_fs:
  "fst ` set (saved_fs d h5 pkl fs) =
     {joinpath d PARAMS_FILENAME, joinpath d BACKEND_FILENAME, d} \<union> fst ` set fs"
  by (auto simp: saved_fs_def write_bytes_def dom_update)

lemma save_None:
  assumes "save K P d (m, fs) = (None, m', fs')"
  obtains b h5 pkl where "\<not> path_exists fs d" and "lookup fs (parent d) = Some Dir"
    and "backend m = Some b" and "keras_save K b = Inr h5"
    and "pickle_dump P (params m) = Inr pkl" and "m' = m" and "fs' = saved_fs d h5 pkl fs"
  using assms
  by (auto simp: save_def Let_def saved_fs_def mkdir_Inr dest!: open_wb_Inr
      split: if_splits sum.splits option.splits)





lemma read_saved_fs:
  "d \<noteq> [] \<Longrightarrow> read_file (saved_fs d h5 pkl fs) (joinpath d BACKEND_FILENAME) = Inr h5"
  "d \<noteq> [] \<Longrightarrow> read_file (saved_fs d h5 pkl fs) (joinpath d PARAMS_FILENAME) = Inr pkl"
  by (simp_all add: read_file_def lookup_saved_fs)

lemma listdir_saved_fs:
  assumes "wf_fs fs" and "\<not> path_exists fs d"
  shows "set (listdir (saved_fs d h5 pkl fs) d) = {BACKEND_FILENAME, PARAMS_FILENAME}"
proof -
  from assms(2) have ne: "d \<noteq> []" by (rule not_exists_not_root)
  have old: "\<And>p. p \<in> fst ` set fs \<Longrightarrow> parent p \<noteq> d"
    using assms by (rule wf_fs_no_children)
  have "length (parent d) < length d" using ne by (simp add: parent_def)
  then have self: "parent d \<noteq> d" by auto
  have "{p \<in> fst ` set (saved_fs d h5 pkl fs). p \<noteq> [] \<and> parent p = d} =
        {joinpath d PARAMS_FILENAME, joinpath d BACKEND_FILENAME}"
    unfolding keys_saved_fs using old self by auto
  then show ?thesis by (auto simp: set_listdir)
qed

lemma load_model_Inr:
  assumes "load_model K P mp d fs = Inr lm"
  obtains h5 b pkl ps cls where "read_file fs (joinpath d BACKEND_FILENAME) = Inr h5"
    and "keras_load_model K h5 = Inr b"
    and "read_file fs (joinpath d PARAMS_FILENAME) = Inr pkl"
    and "pickle_load P pkl = Inr ps"
    and "map_of ps ''model_class'' = Some (PClass cls)"
    and "lm = init mp cls (Some ps) (Some b)"
  using assms
  by (auto simp: load_model_def getitem_def split: sum.splits option.splits pyval.splits)


lemma picklable_load:
  "picklable P ps \<Longrightarrow> pickle_dump P ps = Inr pkl \<Longrightarrow> pickle_load P pkl = Inr ps"
  by (simp add: picklable_def)

lemma example_saves:
  "save example_keras example_pickle example_dir (guessed_model, example_fs) =
     (None, guessed_model, saved_guessed_fs)"
  "save example_keras example_pickle example_dir (unguessed_model, example_fs) =
     (None, unguessed_model, saved_unguessed_fs)"
  by (simp_all add: save_def Let_def mkdir_def open_wb_def write_bytes_def path_exists_def
      lookup_def parent_def joinpath_def example_dir_def example_fs_def example_keras_def
      example_pickle_def guessed_model_def guessed_params_def unguessed_model_def
      unguessed_params_def init_def truthy_def
      NaiveModel_def saved_guessed_fs_def saved_unguessed_fs_def BACKEND_FILENAME_def
      PARAMS_FILENAME_def numeral_3_eq_3)

lemma example_loads:
  "load_model example_keras example_pickle example_ModelParams example_dir saved_guessed_fs =
     Inr guessed_model"
  "load_model example_keras example_pickle example_ModelParams example_dir saved_unguessed_fs =
     Inl TypeError"
  by (simp_all add: load_model_def read_file_def getitem_def lookup_def joinpath_def
      example_dir_def example_fs_def example_keras_def example_pickle_def guessed_model_def
      guessed_params_def unguessed_params_def init_def truthy_def NaiveModel_def
      saved_guessed_fs_def saved_unguessed_fs_def BACKEND_FILENAME_def PARAMS_FILENAME_def)

section \<open>Saving and loading a model\<close>



text \<open>
  C3. A \<^verbatim>\<open>save\<close> that returns has changed the file system at three paths and nowhere
  else: the target is a directory, \<open>backend.h5\<close> in it holds what the backend's save
  wrote and \<open>params.pkl\<close> in it holds the pickle of the parameters. In a file system
  whose entries all lie in directories, the new directory lists exactly these two files.
\<close>

theorem save_writes_two_files:
  assumes "save K P d (m, fs) = (None, m', fs')"
  shows "\<exists>b h5 pkl. backend m = Some b \<and> keras_save K b = Inr h5 \<and>
           pickle_dump P (params m) = Inr pkl \<and>
           (\<forall>p. lookup fs' p =
              (if p = d @ [''params.pkl''] then Some (File pkl)
               else if p = d @ [''backend.h5''] then Some (File h5)
               else if p = d then Some Dir
               else lookup fs p)) \<and>
           (wf_fs fs \<longrightarrow> set (listdir fs' d) = {''backend.h5'', ''params.pkl''})"
proof -
  from assms obtain b h5 pkl where ne: "\<not> path_exists fs d"
    and b: "backend m = Some b" and k: "keras_save K b = Inr h5"
    and p: "pickle_dump P (params m) = Inr pkl" and fs': "fs' = saved_fs d h5 pkl fs"
    by (rule save_None)
  note d = not_exists_not_root [OF ne]
  have look: "lookup fs' p =
      (if p = d @ [''params.pkl''] then Some (File pkl)
       else if p = d @ [''backend.h5''] then Some (File h5)
       else if p = d then Some Dir
       else lookup fs p)" for p
    unfolding fs' lookup_saved_fs [OF d]
    by (simp only: joinpath_def BACKEND_FILENAME_def PARAMS_FILENAME_def)
  have dir: "set (listdir fs' d) = {''backend.h5'', ''params.pkl''}" if "wf_fs fs"
  proof -
    from that ne
    have "set (listdir (saved_fs d h5 pkl fs) d) = {BACKEND_FILENAME, PARAMS_FILENAME}"
      by (rule listdir_saved_fs)
    then show ?thesis by (simp only: fs' BACKEND_FILENAME_def PARAMS_FILENAME_def)
  qed
  show ?thesis
  proof (rule exI [of _ b], rule exI [of _ h5], rule exI [of _ pkl], intro conjI allI impI)
    show "backend m = Some b" by (rule b)
    show "keras_save K b = Inr h5" by (rule k)
    show "pickle_dump P (params m) = Inr pkl" by (rule p)
    show "lookup fs' q =
      (if q = d @ [''params.pkl''] then Some (File pkl)
       else if q = d @ [''backend.h5''] then Some (File h5)
       else if q = d then Some Dir
       else lookup fs q)" for q by (rule look)
    show "set (listdir fs' d) = {''backend.h5'', ''params.pkl''}" if "wf_fs fs"
      using that by (rule dir)
  qed
qed

theorem save_writes_two_files_witness:
  "save example_keras example_pickle example_dir (guessed_model, example_fs) =
     (None, guessed_model, saved_guessed_fs) \<and> wf_fs example_fs \<and>
   set (listdir saved_guessed_fs example_dir) = {''backend.h5'', ''params.pkl''} \<and>
   lookup saved_guessed_fs (example_dir @ [''backend.h5'']) = Some (File ''www'') \<and>
   lookup saved_guessed_fs (example_dir @ [''params.pkl'']) = Some (File ''guessed'')"
proof -
  have wf: "wf_fs example_fs"
    by (simp add: wf_fs_def example_fs_def lookup_def parent_def)
  have b: "backend guessed_model = Some 3" "keras_save example_keras 3 = Inr ''www''"
    "pickle_dump example_pickle (params guessed_model) = Inr ''guessed''"
    by (simp_all add: guessed_model_def example_keras_def example_pickle_def
        guessed_params_def unguessed_params_def numeral_3_eq_3)
  from save_writes_two_files [OF example_saves(1)] obtain b0 h5 pkl
    where b0: "backend guessed_model = Some b0" "keras_save example_keras b0 = Inr h5"
      "pickle_dump example_pickle (params guessed_model) = Inr pkl"
    and look: "\<And>p. lookup saved_guessed_fs p =
        (if p = example_dir @ [''params.pkl''] then Some (File pkl)
         else if p = example_dir @ [''backend.h5''] then Some (File h5)
         else if p = example_dir then Some Dir
         else lookup example_fs p)"
    and ls: "wf_fs example_fs \<longrightarrow>
        set (listdir saved_guessed_fs example_dir) = {''backend.h5'', ''params.pkl''}"
    by (elim exE conjE) (rule that, simp_all only: simp_thms)
  from b b0 have h: "h5 = ''www''" "pkl = ''guessed''" by simp_all
  have f1: "lookup saved_guessed_fs (example_dir @ [''backend.h5'']) = Some (File ''www'')"
    unfolding look [of "example_dir @ [''backend.h5'']"] h by simp
  have f2: "lookup saved_guessed_fs (example_dir @ [''params.pkl'']) =
      Some (File ''guessed'')"
    unfolding look [of "example_dir @ [''params.pkl'']"] h by simp
  from ls wf
  have f3: "set (listdir saved_guessed_fs example_dir) = {''backend.h5'', ''params.pkl''}"
    by (rule mp)
  from example_saves(1) wf f3 f1 f2 show ?thesis by (intro conjI)
qed




text \<open>
  C10. \<^verbatim>\<open>load_model\<close> returns what the class stored under \<open>model_class\<close> in the
  loaded parameters builds from the loaded parameters and the loaded backend, so the
  model it returns is of that class; it raises when the entry is absent or holds
  something that is not a class; and after a \<^verbatim>\<open>save\<close> of picklable parameters the
  class of the loaded model is the one the saved parameters recorded.
\<close>

theorem load_model_model_class:
  "(load_model K P ModelParams d fs = Inr lm \<longrightarrow>
      (\<exists>h5 b pkl ps cls.
          read_file fs (joinpath d BACKEND_FILENAME) = Inr h5 \<and>
          keras_load_model K h5 = Inr b \<and>
          read_file fs (joinpath d PARAMS_FILENAME) = Inr pkl \<and>
          pickle_load P pkl = Inr ps \<and>
          map_of ps ''model_class'' = Some (PClass cls) \<and>
          lm = init ModelParams cls (Some ps) (Some b) \<and> model_cls lm = cls)) \<and>
   (read_file fs (joinpath d PARAMS_FILENAME) = Inr pkl' \<longrightarrow>
    pickle_load P pkl' = Inr ps' \<longrightarrow>
    (\<forall>cls. map_of ps' ''model_class'' \<noteq> Some (PClass cls)) \<longrightarrow>
      (\<exists>e. load_model K P ModelParams d fs = Inl e)) \<and>
   (save K P d (m, fs0) = (None, m', fs) \<longrightarrow> picklable P (params m) \<longrightarrow>
    load_model K P ModelParams d fs = Inr lm \<longrightarrow>
      map_of (params m) ''model_class'' = Some (PClass (model_cls lm)))"
proof -
  have returns: "\<exists>h5 b pkl ps cls.
      read_file fs (joinpath d BACKEND_FILENAME) = Inr h5 \<and>
      keras_load_model K h5 = Inr b \<and>
      read_file fs (joinpath d PARAMS_FILENAME) = Inr pkl \<and>
      pickle_load P pkl = Inr ps \<and>
      map_of ps ''model_class'' = Some (PClass cls) \<and>
      lm = init ModelParams cls (Some ps) (Some b) \<and> model_cls lm = cls"
    if "load_model K P ModelParams d fs = Inr lm" for lm
    using that by (rule load_model_Inr) (auto simp: init_def)
  have raises: "\<exists>e. load_model K P ModelParams d fs = Inl e"
    if "read_file fs (joinpath d PARAMS_FILENAME) = Inr pkl'" "pickle_load P pkl' = Inr ps'"
      "\<forall>cls. map_of ps' ''model_class'' \<noteq> Some (PClass cls)"
  proof (cases "load_model K P ModelParams d fs")
    case (Inl e)
    then show ?thesis by blast
  next
    case (Inr lm')
    from returns [OF this] that show ?thesis by auto
  qed
  have recorded: "map_of (params m) ''model_class'' = Some (PClass (model_cls lm))"
    if s: "save K P d (m, fs0) = (None, m', fs)" and pk: "picklable P (params m)"
      and l: "load_model K P ModelParams d fs = Inr lm"
  proof -
    from s obtain h5 pkl where ne: "\<not> path_exists fs0 d"
      and p: "pickle_dump P (params m) = Inr pkl" and fs: "fs = saved_fs d h5 pkl fs0"
      by (rule save_None)
    from returns [OF l] obtain pkl2 ps cls where
      r: "read_file fs (joinpath d PARAMS_FILENAME) = Inr pkl2"
      and pl: "pickle_load P pkl2 = Inr ps"
      and mc: "map_of ps ''model_class'' = Some (PClass cls)" and c: "model_cls lm = cls"
      by blast
    from r read_saved_fs(2) [OF not_exists_not_root [OF ne], of h5 pkl fs0]
    have "pkl2 = pkl" by (simp add: fs)
    with pl picklable_load [OF pk p] have "ps = params m" by simp
    with mc c show ?thesis by simp
  qed
  from returns raises recorded show ?thesis by blast
qed

theorem load_model_model_class_witness:
  "load_model example_keras example_pickle example_ModelParams example_dir saved_guessed_fs =
     Inr guessed_model \<and>
   save example_keras example_pickle example_dir (guessed_model, example_fs) =
     (None, guessed_model, saved_guessed_fs) \<and>
   picklable example_pickle (params guessed_model) \<and>
   map_of (params guessed_model) ''model_class'' = Some (PClass NaiveModel) \<and>
   model_cls guessed_model = NaiveModel \<and>
   read_file saved_unguessed_fs (joinpath example_dir PARAMS_FILENAME) = Inr ''unguessed'' \<and>
   pickle_load example_pickle ''unguessed'' = Inr unguessed_params \<and>
   (\<forall>cls. map_of unguessed_params ''model_class'' \<noteq> Some (PClass cls)) \<and>
   (\<exists>e. load_model example_keras example_pickle example_ModelParams example_dir
          saved_unguessed_fs = Inl e)"
proof -
  have pk: "picklable example_pickle (params guessed_model)"
    by (simp add: picklable_def example_pickle_def guessed_model_def guessed_params_def
        unguessed_params_def)
  have c: "model_cls guessed_model = NaiveModel" by (simp add: guessed_model_def)
  have r: "read_file saved_unguessed_fs (joinpath example_dir PARAMS_FILENAME) =
      Inr ''unguessed''"
    by (simp add: read_file_def lookup_def joinpath_def example_dir_def example_fs_def
        saved_unguessed_fs_def PARAMS_FILENAME_def)
  have l: "pickle_load example_pickle ''unguessed'' = Inr unguessed_params"
    by (simp add: example_pickle_def)
  have n: "\<forall>cls. map_of unguessed_params ''model_class'' \<noteq> Some (PClass cls)"
    by (simp add: unguessed_params_def)
  from load_model_model_class [where K = example_keras and P = example_pickle
      and ModelParams = example_ModelParams and d = example_dir and fs = saved_guessed_fs
      and lm = guessed_model and m = guessed_model and m' = guessed_model
      and ?fs0.0 = example_fs]
    load_model_model_class [where K = example_keras and P = example_pickle
      and ModelParams = example_ModelParams and d = example_dir and fs = saved_unguessed_fs
      and pkl' = "''unguessed''" and ps' = unguessed_params]
    example_loads(1) example_saves(1) pk c r l n
  show ?thesis by simp
qed

end
